theory Spec2Isabelle
  imports Main "HOL-Library.Sublist"
begin

section \<open>Python strings\<close>

text \<open>
  A Python string is modelled as the list of its code points, for code points up to
  U+00FF: the 8-bit character number \<open>n\<close> is the code point \<open>n\<close>. \<open>lower\<close> is
  \<^verbatim>\<open>str.lower\<close>, which maps \<open>A-Z\<close> and the upper-case letters U+00C0 to U+00DE
  (without the multiplication sign U+00D7) 32 places up and leaves the rest alone.
\<close>

definition lower_char :: "char \<Rightarrow> char" where
  "lower_char c =
     (let n = (of_char c :: nat) in
      if (65 \<le> n \<and> n \<le> 90) \<or> (192 \<le> n \<and> n \<le> 222 \<and> n \<noteq> 215)
      then char_of (n + 32) else c)"

definition lower :: "string \<Rightarrow> string" where
  "lower s = map lower_char s"




text \<open>\<open>str_in sub s\<close> is Python's \<^verbatim>\<open>sub in s\<close> on strings: \<open>sub\<close> occurs in \<open>s\<close> as a
  contiguous run.\<close>

definition str_in :: "string \<Rightarrow> string \<Rightarrow> bool" where
  "str_in sub s = sublist sub s"

definition startswith :: "string \<Rightarrow> string \<Rightarrow> bool" where
  "startswith s p = prefix p s"

definition endswith :: "string \<Rightarrow> string \<Rightarrow> bool" where
  "endswith s p = suffix p s"

section \<open>The classifier (\<^verbatim>\<open>classify_it_specialist.py\<close>)\<close>

text \<open>
  A title is \<open>None\<close> (Python's \<^verbatim>\<open>None\<close>) or a string. \<^verbatim>\<open>not title\<close> holds for
  \<^verbatim>\<open>None\<close> and for the empty string.
\<close>

definition is_it_specialist :: "string option \<Rightarrow> bool" where
  "is_it_specialist title =
     (case title of
        None \<Rightarrow> False
      | Some t \<Rightarrow>
          if t = [] then False
          else
            let title_lower = lower t in
            if str_in ''itspec'' title_lower then True
            else if str_in ''it'' title_lower \<and> str_in ''spec'' title_lower then True
            else
              let has_it = (str_in ''it '' title_lower \<or> startswith title_lower ''it''
                            \<or> endswith title_lower ''it'' \<or> str_in '' it '' title_lower);
                  has_specialist = str_in ''specialist'' title_lower;
                  has_info_tech = str_in ''information technology'' title_lower
              in (has_it \<and> has_specialist) \<or> (has_info_tech \<and> has_specialist))"

text \<open>
  The rule as the specification words it: the title is a non-null, non-empty string whose
  lowercasing contains both \<open>it\<close> and \<open>spec\<close>, or both \<open>information technology\<close> and
  \<open>specialist\<close>.
\<close>

definition loose_rule :: "string option \<Rightarrow> bool" where
  "loose_rule title =
     (case title of
        None \<Rightarrow> False
      | Some t \<Rightarrow>
          t \<noteq> [] \<and>
          ((str_in ''it'' (lower t) \<and> str_in ''spec'' (lower t))
           \<or> (str_in ''information technology'' (lower t) \<and> str_in ''specialist'' (lower t))))"

section \<open>Data of the integrity verifier (\<^verbatim>\<open>test_data_integrity.py\<close>)\<close>

text \<open>
  A data frame has named columns and rows; a cell is a string or null. A parquet file
  either reads as a data frame or makes \<^verbatim>\<open>pd.read_parquet\<close> raise.
\<close>

type_synonym cell = "string option"

record dataframe =
  df_columns :: "string list"
  df_rows :: "(string \<Rightarrow> cell) list"

datatype parquet = Unreadable | Readable dataframe

text \<open>
  A JSON object in the baseline file. Its keys are the five the verifier reads or writes,
  each with the type the verifier gives it; a key that is absent from the object is
  \<open>None\<close>. For \<open>most_recent_it_specialist_date\<close>, \<open>Some None\<close> is the JSON value
  \<^verbatim>\<open>null\<close>. Any other key of the object is never read; \<open>other_keys\<close> lists their
  names, since they make the object non-empty.
\<close>

record baseline =
  created_at :: "string option"
  job_ids :: "string list option"
  total_jobs :: "nat option"
  most_recent_it_specialist_date :: "string option option"
  data_filter :: "string option"
  other_keys :: "string list"

text \<open>
  The file \<^verbatim>\<open>data_baseline.json\<close> is absent, holds text that is not JSON (\<open>Corrupt\<close>:
  \<^verbatim>\<open>json.load\<close> raises), or holds a JSON value: an object, or a value that is not an
  object, of which the verifier can only see the truth value (\<^verbatim>\<open>null\<close>, \<^verbatim>\<open>false\<close>,
  \<open>0\<close>, the empty string and the empty array are false).
\<close>

datatype stored = Dict baseline | Not_dict bool

datatype baseline_state = Absent | Corrupt | Stored stored

text \<open>The exceptions that leave a check.\<close>

datatype exn = JSONDecodeError | AttributeError

text \<open>The metrics artifact is any JSON value, when the file exists and parses. The checks
  never look at a number's value.\<close>

datatype json =
    JNull
  | JBool bool
  | JNum int
  | JStr string
  | JArr "json list"
  | JObj "(string \<times> json) list"

datatype metrics_file = Missing | Malformed | Parsed json

text \<open>
  A pandas timestamp is an instant, and is zone-aware or zone-naive. Two timestamps
  compare by their instants when both are aware or both are naive; comparing an aware
  with a naive one raises \<^verbatim>\<open>TypeError\<close>, which is \<open>None\<close> here.
\<close>

datatype timestamp = Timestamp (zone_aware: bool) (instant: int)

definition ts_less :: "timestamp \<Rightarrow> timestamp \<Rightarrow> bool option" where
  "ts_less a b =
     (if zone_aware a = zone_aware b then Some (instant a < instant b) else None)"

text \<open>
  What pandas and Python's \<^verbatim>\<open>set\<close> do is not code of this repository and is a
  parameter of the model:
  \<^item> \<open>to_datetime\<close> is \<^verbatim>\<open>pd.to_datetime(s)\<close> on one string, which raises, gives
    \<^verbatim>\<open>NaT\<close>, or gives a timestamp;
  \<^item> \<open>to_datetime_coerce\<close> is \<^verbatim>\<open>pd.to_datetime(column, errors='coerce')\<close> on a column,
    where \<open>None\<close> is \<^verbatim>\<open>NaT\<close>;
  \<^item> \<open>isoformat\<close> is \<^verbatim>\<open>Timestamp.isoformat()\<close>;
  \<^item> \<open>set_to_list\<close> is \<^verbatim>\<open>list(s)\<close> on a set of strings, in Python's iteration order.
\<close>

datatype parsed = Raises | NaT | Stamp timestamp

record library =
  to_datetime :: "string \<Rightarrow> parsed"
  to_datetime_coerce :: "cell list \<Rightarrow> timestamp option list"
  isoformat :: "timestamp \<Rightarrow> string"
  set_to_list :: "string set \<Rightarrow> string list"

text \<open>
  The files a run sees: \<^verbatim>\<open>data_baseline.json\<close>, the parquet file that
  \<^verbatim>\<open>get_latest_parquet_file\<close> selects (\<open>None\<close> when the glob matches nothing),
  \<^verbatim>\<open>data/2210_metrics.json\<close>, and the reading of \<^verbatim>\<open>datetime.now().isoformat()\<close>.
\<close>

record files =
  baseline_file :: baseline_state
  latest_parquet :: "parquet option"
  metrics_json :: metrics_file
  now :: string

text \<open>
  What a check prints, with the data the message carries. Every line printed as
  \<^verbatim>\<open>PASS\<close> or \<^verbatim>\<open>WARN\<close> is followed by \<^verbatim>\<open>return True\<close>, every line printed as
  \<^verbatim>\<open>FAIL\<close> or \<^verbatim>\<open>CRITICAL FAIL\<close> by \<^verbatim>\<open>return False\<close>. \<open>FAIL\<close> stands for every
  failure line that carries no data of its own, among them the lines of the
  \<^verbatim>\<open>except\<close> clauses.
\<close>

datatype outcome =
    PASS
  | WARN
  | FAIL
  | JOBS_LOST nat "string list"
  | DATE_BACKWARDS string timestamp
  | BEFORE_CUTOFF nat
  | MISSING_FIELDS "string list"
  | MISSING_SUBFIELDS

fun returns :: "outcome \<Rightarrow> bool" where
  "returns PASS = True"
| "returns WARN = True"
| "returns _ = False"

text \<open>The fields that a failure message names.\<close>

fun named_fields :: "outcome \<Rightarrow> string list" where
  "named_fields (MISSING_FIELDS fs) = fs"
| "named_fields _ = []"

section \<open>Helpers of the verifier\<close>

definition current_filter :: string where
  "current_filter = ''Jobs posted since October 1, 2025''"

definition PositionID :: string where
  "PositionID = ''MatchedObjectDescriptor_PositionID''"

definition PositionURI :: string where
  "PositionURI = ''MatchedObjectDescriptor_PositionURI''"

definition PositionTitle :: string where
  "PositionTitle = ''MatchedObjectDescriptor_PositionTitle''"

definition PositionStartDate :: string where
  "PositionStartDate = ''MatchedObjectDescriptor_PositionStartDate''"

definition PublicationStartDate :: string where
  "PublicationStartDate = ''MatchedObjectDescriptor_PublicationStartDate''"

definition date_cols :: "string list" where
  "date_cols = [PositionStartDate, PublicationStartDate]"

definition column :: "dataframe \<Rightarrow> string \<Rightarrow> cell list" where
  "column df c = map (\<lambda>r. r c) (df_rows df)"

definition dropna :: "'a option list \<Rightarrow> 'a list" where
  "dropna xs = [x. Some x \<leftarrow> xs]"

text \<open>\<^verbatim>\<open>uri.split('/')[-1]\<close>: what follows the last slash.\<close>

definition last_segment :: "string \<Rightarrow> string" where
  "last_segment uri = rev (takeWhile (\<lambda>c. c \<noteq> CHR ''/'') (rev uri))"

text \<open>
  The identifiers of a data frame, as \<^verbatim>\<open>create_initial_baseline\<close> lists them;
  \<^verbatim>\<open>test_no_job_loss\<close> builds the set of the same comprehension.
\<close>

definition extract_job_ids :: "dataframe \<Rightarrow> string list" where
  "extract_job_ids df =
     (if PositionID \<in> set (df_columns df) then dropna (column df PositionID)
      else if PositionURI \<in> set (df_columns df) then
        [last_segment uri. uri \<leftarrow> dropna (column df PositionURI), str_in ''/job/'' uri]
      else [])"

definition it_jobs :: "dataframe \<Rightarrow> (string \<Rightarrow> cell) list" where
  "it_jobs df = filter (\<lambda>r. is_it_specialist (r PositionTitle)) (df_rows df)"

text \<open>
  \<^verbatim>\<open>dates.max()\<close> on a non-empty column \<open>m # ds\<close>: the latest date, or \<open>None\<close> when
  two of its dates do not compare.
\<close>

primrec max_of :: "timestamp \<Rightarrow> timestamp list \<Rightarrow> timestamp option" where
  "max_of m [] = Some m"
| "max_of m (d # ds) =
     (case ts_less m d of
        None \<Rightarrow> None
      | Some b \<Rightarrow> max_of (if b then d else m) ds)"

text \<open>
  One round of the loop over \<open>date_cols\<close> that keeps the latest date seen so far. The
  result is \<open>None\<close> when a comparison raises \<^verbatim>\<open>TypeError\<close>.
\<close>

definition max_step ::
  "library \<Rightarrow> string list \<Rightarrow> (string \<Rightarrow> cell) list \<Rightarrow> timestamp option \<Rightarrow> string
   \<Rightarrow> timestamp option option" where
  "max_step L cols rows cur col =
     (if col \<in> set cols then
        (case dropna (to_datetime_coerce L (map (\<lambda>r. r col) rows)) of
           [] \<Rightarrow> Some cur
         | d # ds \<Rightarrow>
             (case max_of d ds of
                None \<Rightarrow> None
              | Some col_max \<Rightarrow>
                  (case cur of
                     None \<Rightarrow> Some (Some col_max)
                   | Some m \<Rightarrow>
                       (case ts_less m col_max of
                          None \<Rightarrow> None
                        | Some later \<Rightarrow> Some (if later then Some col_max else cur)))))
      else Some cur)"

primrec max_loop ::
  "library \<Rightarrow> string list \<Rightarrow> (string \<Rightarrow> cell) list \<Rightarrow> timestamp option \<Rightarrow> string list
   \<Rightarrow> timestamp option option" where
  "max_loop L cols rows cur [] = Some cur"
| "max_loop L cols rows cur (col # rest) =
     (case max_step L cols rows cur col of
        None \<Rightarrow> None
      | Some cur' \<Rightarrow> max_loop L cols rows cur' rest)"

definition max_it_date :: "library \<Rightarrow> dataframe \<Rightarrow> timestamp option option" where
  "max_it_date L df = max_loop L (df_columns df) (it_jobs df) None date_cols"

definition empty_dict :: baseline where
  "empty_dict =
     \<lparr>created_at = None, job_ids = None, total_jobs = None,
      most_recent_it_specialist_date = None, data_filter = None, other_keys = []\<rparr>"

text \<open>
  \<^verbatim>\<open>load_baseline\<close>: \<^verbatim>\<open>None\<close> when there is no file, else what \<^verbatim>\<open>json.load\<close>
  returns or raises.
\<close>

definition load_baseline :: "files \<Rightarrow> exn + stored option" where
  "load_baseline s =
     (case baseline_file s of
        Absent \<Rightarrow> Inr None
      | Corrupt \<Rightarrow> Inl JSONDecodeError
      | Stored v \<Rightarrow> Inr (Some v))"

text \<open>\<^verbatim>\<open>not baseline\<close>: \<^verbatim>\<open>None\<close>, the empty object, or a false value.\<close>

fun not_baseline :: "stored option \<Rightarrow> bool" where
  "not_baseline None = True"
| "not_baseline (Some (Dict b)) = (b = empty_dict)"
| "not_baseline (Some (Not_dict truth)) = (\<not> truth)"

section \<open>Creating and updating the baseline\<close>

text \<open>
  The whole body of \<^verbatim>\<open>create_initial_baseline\<close> is inside a \<^verbatim>\<open>try\<close>: when reading
  the file or comparing dates raises, nothing is written.
\<close>

definition create_initial_baseline :: "library \<Rightarrow> parquet \<Rightarrow> files \<Rightarrow> files" where
  "create_initial_baseline L latest_file s =
     (case latest_file of
        Unreadable \<Rightarrow> s
      | Readable df \<Rightarrow>
          let ids = extract_job_ids df;
              most_recent_date =
                (if PositionTitle \<in> set (df_columns df) then
                   (if it_jobs df \<noteq> [] then max_it_date L df else Some None)
                 else Some None)
          in (case most_recent_date of
                None \<Rightarrow> s
              | Some most_recent_date \<Rightarrow>
                  s\<lparr>baseline_file := Stored (Dict
                     \<lparr>created_at = Some (now s),
                      job_ids = Some ids,
                      total_jobs = Some (length (df_rows df)),
                      most_recent_it_specialist_date =
                        Some (map_option (isoformat L) most_recent_date),
                      data_filter = None,
                      other_keys = []\<rparr>)\<rparr>))"

definition update_baseline :: "library \<Rightarrow> files \<Rightarrow> files" where
  "update_baseline L s =
     (case latest_parquet s of
        None \<Rightarrow> s
      | Some latest_file \<Rightarrow> create_initial_baseline L latest_file s)"

section \<open>The five checks\<close>

definition test_parquet_file_validity :: "files \<Rightarrow> outcome" where
  "test_parquet_file_validity s =
     (case latest_parquet s of
        None \<Rightarrow> FAIL
      | Some Unreadable \<Rightarrow> FAIL
      | Some (Readable df) \<Rightarrow> if length (df_rows df) = 0 then FAIL else PASS)"

text \<open>
  In \<^verbatim>\<open>test_no_job_loss\<close> the call of \<^verbatim>\<open>load_baseline\<close> and the read of
  \<^verbatim>\<open>data_filter\<close> are outside the \<^verbatim>\<open>try\<close>: what they raise leaves the check.
\<close>

definition test_no_job_loss :: "library \<Rightarrow> files \<Rightarrow> exn + outcome \<times> files" where
  "test_no_job_loss L s =
     (case load_baseline s of
        Inl e \<Rightarrow> Inl e
      | Inr baseline \<Rightarrow>
          (case latest_parquet s of
             None \<Rightarrow> Inr (FAIL, s)
           | Some latest_file \<Rightarrow>
               if not_baseline baseline then
                 Inr (WARN, create_initial_baseline L latest_file s)
               else
                 (case baseline of
                    Some (Dict b) \<Rightarrow>
                      let baseline_filter =
                            (case data_filter b of None \<Rightarrow> ''Unknown'' | Some f \<Rightarrow> f)
                      in
                      if baseline_filter \<noteq> current_filter then
                        Inr (WARN, create_initial_baseline L latest_file s)
                      else
                        (case latest_file of
                           Unreadable \<Rightarrow> Inr (FAIL, s)
                         | Readable df \<Rightarrow>
                             let current_ids = set (extract_job_ids df);
                                 baseline_ids =
                                   set (case job_ids b of None \<Rightarrow> [] | Some ids \<Rightarrow> ids)
                             in
                             if current_ids = {} then Inr (FAIL, s)
                             else
                               let lost_jobs = baseline_ids - current_ids in
                               if lost_jobs \<noteq> {} then
                                 Inr (JOBS_LOST (card lost_jobs)
                                        (take 10 (set_to_list L lost_jobs)), s)
                               else Inr (PASS, s))
                  | _ \<Rightarrow> Inl AttributeError)))"

text \<open>
  In \<^verbatim>\<open>test_date_progression\<close> only the call of \<^verbatim>\<open>load_baseline\<close> is outside the
  \<^verbatim>\<open>try\<close>; a \<^verbatim>\<open>TypeError\<close> of a comparison and the \<^verbatim>\<open>AttributeError\<close> of
  \<^verbatim>\<open>baseline.get\<close> are caught and reported as a failure.
\<close>

definition test_date_progression :: "library \<Rightarrow> files \<Rightarrow> exn + outcome" where
  "test_date_progression L s =
     (case load_baseline s of
        Inl e \<Rightarrow> Inl e
      | Inr baseline \<Rightarrow> Inr
          (if latest_parquet s = None \<or> not_baseline baseline then WARN
           else
             (case the (latest_parquet s) of
                Unreadable \<Rightarrow> FAIL
              | Readable df \<Rightarrow>
                  if PositionTitle \<notin> set (df_columns df) then WARN
                  else if it_jobs df = [] then WARN
                  else
                    (case max_it_date L df of
                       None \<Rightarrow> FAIL
                     | Some None \<Rightarrow> WARN
                     | Some (Some current_max_date) \<Rightarrow>
                         (case baseline of
                            Some (Dict b) \<Rightarrow>
                              (case most_recent_it_specialist_date b of
                                 Some (Some baseline_max_date_str) \<Rightarrow>
                                   if baseline_max_date_str \<noteq> [] then
                                     (case to_datetime L baseline_max_date_str of
                                        Raises \<Rightarrow> FAIL
                                      | NaT \<Rightarrow> PASS
                                      | Stamp baseline_max_date \<Rightarrow>
                                          (case ts_less current_max_date baseline_max_date of
                                             None \<Rightarrow> FAIL
                                           | Some True \<Rightarrow>
                                               DATE_BACKWARDS baseline_max_date_str
                                                 current_max_date
                                           | Some False \<Rightarrow> PASS))
                                   else PASS
                               | _ \<Rightarrow> PASS)
                          | _ \<Rightarrow> FAIL)))))"

text \<open>
  \<^verbatim>\<open>valid_dates < cutoff_date\<close> on a column: one truth value for each date, or \<open>None\<close>
  for the \<^verbatim>\<open>TypeError\<close> of comparing a zone-aware date with a zone-naive cutoff or the
  reverse. Nothing is earlier than \<^verbatim>\<open>NaT\<close>.
\<close>

fun series_less :: "timestamp list \<Rightarrow> parsed \<Rightarrow> bool list option" where
  "series_less ds (Stamp cutoff_date) =
     (if list_all (\<lambda>d. zone_aware d = zone_aware cutoff_date) ds
      then Some (map (\<lambda>d. instant d < instant cutoff_date) ds)
      else None)"
| "series_less ds NaT = Some (map (\<lambda>d. False) ds)"
| "series_less ds Raises = None"

text \<open>
  One round of the loop of \<^verbatim>\<open>test_october_filter\<close>, on the pair
  \<open>(violations, total_with_dates)\<close>; \<open>None\<close> when the comparison raises.
\<close>

definition october_step ::
  "library \<Rightarrow> dataframe \<Rightarrow> parsed \<Rightarrow> nat \<times> nat \<Rightarrow> string \<Rightarrow> (nat \<times> nat) option" where
  "october_step L df cutoff_date acc col =
     (if col \<in> set (df_columns df) then
        let valid_dates = dropna (to_datetime_coerce L (column df col)) in
        if length valid_dates > 0 then
          (case series_less valid_dates cutoff_date of
             None \<Rightarrow> None
           | Some before_cutoff \<Rightarrow>
               Some (fst acc + length (filter (\<lambda>b. b) before_cutoff),
                     snd acc + length valid_dates))
        else Some acc
      else Some acc)"

primrec october_loop ::
  "library \<Rightarrow> dataframe \<Rightarrow> parsed \<Rightarrow> nat \<times> nat \<Rightarrow> string list \<Rightarrow> (nat \<times> nat) option" where
  "october_loop L df cutoff_date acc [] = Some acc"
| "october_loop L df cutoff_date acc (col # rest) =
     (case october_step L df cutoff_date acc col of
        None \<Rightarrow> None
      | Some acc' \<Rightarrow> october_loop L df cutoff_date acc' rest)"

definition test_october_filter :: "library \<Rightarrow> files \<Rightarrow> outcome" where
  "test_october_filter L s =
     (case latest_parquet s of
        None \<Rightarrow> FAIL
      | Some Unreadable \<Rightarrow> FAIL
      | Some (Readable df) \<Rightarrow>
          (case to_datetime L ''2025-10-01'' of
             Raises \<Rightarrow> FAIL
           | cutoff_date \<Rightarrow>
               (case october_loop L df cutoff_date (0, 0) date_cols of
                  None \<Rightarrow> FAIL
                | Some (violations, total_with_dates) \<Rightarrow>
                    if violations > 0 then BEFORE_CUTOFF violations
                    else if total_with_dates > 0 then PASS
                    else WARN)))"

text \<open>
  \<^verbatim>\<open>key in container\<close> for a JSON value: membership of a key in an object, of an element
  in an array, of a substring in a string; \<open>None\<close> is the \<^verbatim>\<open>TypeError\<close> of the other
  values.
\<close>

fun py_in :: "string \<Rightarrow> json \<Rightarrow> bool option" where
  "py_in k (JObj kvs) = Some (k \<in> fst ` set kvs)"
| "py_in k (JArr xs) = Some (JStr k \<in> set xs)"
| "py_in k (JStr s) = Some (str_in k s)"
| "py_in k _ = None"

definition required_fields :: "string list" where
  "required_fields =
     [''total_2210_jobs'', ''it_specialist_jobs'', ''it_specialist_percentage'',
      ''most_recent_it_specialist'']"

definition required_subfields :: "string list" where
  "required_subfields = [''title'', ''date_posted'', ''link'']"

definition test_metrics_json :: "files \<Rightarrow> outcome" where
  "test_metrics_json s =
     (case metrics_json s of
        Missing \<Rightarrow> FAIL
      | Malformed \<Rightarrow> FAIL
      | Parsed metrics \<Rightarrow>
          (case py_in (hd required_fields) metrics of
             None \<Rightarrow> FAIL
           | Some _ \<Rightarrow>
               let missing_fields =
                     filter (\<lambda>field. py_in field metrics = Some False) required_fields
               in
               if missing_fields \<noteq> [] then MISSING_FIELDS missing_fields
               else
                 (case metrics of
                    JObj kvs \<Rightarrow>
                      (case map_of kvs ''most_recent_it_specialist'' of
                         None \<Rightarrow> FAIL
                       | Some recent \<Rightarrow>
                           (case py_in (hd required_subfields) recent of
                              None \<Rightarrow> FAIL
                            | Some _ \<Rightarrow>
                                if list_all (\<lambda>key. py_in key recent = Some True) required_subfields
                                then PASS
                                else MISSING_SUBFIELDS))
                  | _ \<Rightarrow> FAIL)))"

section \<open>A verification run\<close>

text \<open>
  \<^verbatim>\<open>run_tests\<close> returns the exit status, or an exception leaves it, and the process
  then ends with status 1. The model returns with it the reports printed so far, in
  order, and the files as the run leaves them.
\<close>

definition run_tests :: "library \<Rightarrow> files \<Rightarrow> (exn + int) \<times> outcome list \<times> files" where
  "run_tests L s =
     (let all_passed = True;
          r1 = test_parquet_file_validity s;
          all_passed = (if \<not> returns r1 then False else all_passed)
      in
      case test_no_job_loss L s of
        Inl e \<Rightarrow> (Inl e, [r1], s)
      | Inr (r2, s2) \<Rightarrow>
          let all_passed = (if \<not> returns r2 then False else all_passed) in
          (case test_date_progression L s2 of
             Inl e \<Rightarrow> (Inl e, [r1, r2], s2)
           | Inr r3 \<Rightarrow>
               let all_passed = (if \<not> returns r3 then False else all_passed);
                   r4 = test_october_filter L s2;
                   all_passed = (if \<not> returns r4 then False else all_passed);
                   r5 = test_metrics_json s2;
                   all_passed = (if \<not> returns r5 then False else all_passed)
               in if all_passed then (Inr 0, [r1, r2, r3, r4, r5], update_baseline L s2)
                  else (Inr 1, [r1, r2, r3, r4, r5], s2)))"

definition exit_status :: "(exn + int) \<times> outcome list \<times> files \<Rightarrow> int" where
  "exit_status r = (case fst r of Inl e \<Rightarrow> 1 | Inr code \<Rightarrow> code)"

definition reports :: "(exn + int) \<times> outcome list \<times> files \<Rightarrow> outcome list" where
  "reports r = fst (snd r)"

definition files_after :: "(exn + int) \<times> outcome list \<times> files \<Rightarrow> files" where
  "files_after r = snd (snd r)"

text \<open>The files as the no-job-loss check leaves them: unchanged when it raises.\<close>

definition left_by_no_job_loss :: "library \<Rightarrow> files \<Rightarrow> files" where
  "left_by_no_job_loss L s =
     (case test_no_job_loss L s of Inl e \<Rightarrow> s | Inr (r, s') \<Rightarrow> s')"

section \<open>Dates of a data frame\<close>

text \<open>
  The dates that parse in the recognized date columns of a data frame, column after
  column, and the same for its IT-specialist rows only.
\<close>

definition all_dates :: "library \<Rightarrow> dataframe \<Rightarrow> timestamp list" where
  "all_dates L df =
     concat (map (\<lambda>col. if col \<in> set (df_columns df)
                         then dropna (to_datetime_coerce L (column df col)) else [])
                 date_cols)"

definition it_dates :: "library \<Rightarrow> dataframe \<Rightarrow> timestamp list" where
  "it_dates L df =
     concat (map (\<lambda>col. if col \<in> set (df_columns df)
                         then dropna (to_datetime_coerce L (map (\<lambda>r. r col) (it_jobs df)))
                         else [])
                 date_cols)"

text \<open>
  The latest of a list of dates that are all zone-aware (\<open>k\<close> true) or all zone-naive
  (\<open>k\<close> false); \<open>None\<close> for the empty list.
\<close>

definition latest_of :: "bool \<Rightarrow> timestamp list \<Rightarrow> timestamp option" where
  "latest_of k ds = (if ds = [] then None else Some (Timestamp k (Max (instant ` set ds))))"

section \<open>Example inputs\<close>

text \<open>
  An instance of the library that knows four dates, numbered in calendar order, written
  with or without a midnight time part and with or without the offset \<open>+00:00\<close>, which
  makes the timestamp zone-aware; it lists a set of identifiers in the order
  \<open>1001, 1002, 1003\<close>.
\<close>

definition example_dates :: "(string \<times> int) list" where
  "example_dates =
     [(''2025-09-30'', 20250930), (''2025-10-01'', 20251001), (''2025-10-05'', 20251005),
      (''2025-10-08'', 20251008)]"

definition example_parse :: "string \<Rightarrow> timestamp option" where
  "example_parse s =
     (let aware = suffix ''+00:00'' s;
          body = (if aware then take (length s - 6) s else s)
      in if body = take 10 body \<or> body = take 10 body @ ''T00:00:00''
         then map_option (Timestamp aware) (map_of example_dates (take 10 body))
         else None)"

definition example_isoformat :: "timestamp \<Rightarrow> string" where
  "example_isoformat t =
     (case map_of (map (\<lambda>(s, d). (d, s)) example_dates) (instant t) of
        None \<Rightarrow> ''1970-01-01T00:00:00''
      | Some s \<Rightarrow> s @ ''T00:00:00'')
     @ (if zone_aware t then ''+00:00'' else [])"

definition example_library :: library where
  "example_library =
     \<lparr>to_datetime = (\<lambda>s. case example_parse s of None \<Rightarrow> Raises | Some t \<Rightarrow> Stamp t),
      to_datetime_coerce = map (\<lambda>c. case c of None \<Rightarrow> None | Some s \<Rightarrow> example_parse s),
      isoformat = example_isoformat,
      set_to_list = (\<lambda>S. filter (\<lambda>i. i \<in> S) [''1001'', ''1002'', ''1003''])\<rparr>"

text \<open>A row with an identifier, a title and a start date.\<close>

definition example_row :: "string \<Rightarrow> string \<Rightarrow> string \<Rightarrow> string \<Rightarrow> cell" where
  "example_row i t d =
     (\<lambda>c. if c = PositionID then Some i
          else if c = PositionTitle then Some t
          else if c = PositionStartDate then Some d
          else None)"

definition example_frame :: dataframe where
  "example_frame =
     \<lparr>df_columns = [PositionID, PositionTitle, PositionStartDate],
      df_rows = [example_row ''1001'' ''IT Specialist'' ''2025-10-01'',
                 example_row ''1002'' ''IT Program Manager'' ''2025-10-05'']\<rparr>"

definition example_stale_frame :: dataframe where
  "example_stale_frame =
     \<lparr>df_columns = [PositionID, PositionTitle, PositionStartDate],
      df_rows = [example_row ''1001'' ''IT Specialist'' ''2025-09-30'']\<rparr>"

text \<open>A frame whose only date is zone-aware and later than the cutoff.\<close>

definition example_aware_frame :: dataframe where
  "example_aware_frame =
     \<lparr>df_columns = [PositionID, PositionTitle, PositionStartDate],
      df_rows = [example_row ''1001'' ''IT Specialist'' ''2025-10-05T00:00:00+00:00'']\<rparr>"

text \<open>
  A frame with both date columns. The latest date of its IT-specialist rows is the
  publication date of the second row; the third row is later and is no IT specialist.
\<close>

definition example_wide_frame :: dataframe where
  "example_wide_frame =
     \<lparr>df_columns = [PositionID, PositionTitle, PositionStartDate, PublicationStartDate],
      df_rows =
        [(example_row ''1001'' ''IT Specialist'' ''2025-10-01'')
           (PublicationStartDate := Some ''2025-09-30''),
         (example_row ''1002'' ''IT SPEC (NETWORK)'' ''2025-09-30'')
           (PublicationStartDate := Some ''2025-10-05''),
         (example_row ''1003'' ''IT Program Manager'' ''2025-10-08'')
           (PublicationStartDate := Some ''2025-10-08'')]\<rparr>"

text \<open>A baseline that stores the active filter description.\<close>

definition example_baseline :: "string list \<Rightarrow> string option \<Rightarrow> baseline" where
  "example_baseline ids date =
     \<lparr>created_at = Some ''2025-10-06T09:00:00'', job_ids = Some ids,
      total_jobs = Some (length ids), most_recent_it_specialist_date = Some date,
      data_filter = Some current_filter, other_keys = []\<rparr>"

text \<open>A metrics artifact with the four top-level fields and the given nested object.\<close>

definition example_metrics :: "(string \<times> json) list \<Rightarrow> json" where
  "example_metrics recent =
     JObj [(''generated_at'', JStr ''2025-10-06T08:00:00''),
           (''total_2210_jobs'', JNum 2),
           (''it_specialist_jobs'', JNum 1),
           (''it_specialist_percentage'', JNum 50),
           (''most_recent_it_specialist'', JObj recent)]"

definition example_files :: "baseline_state \<Rightarrow> dataframe \<Rightarrow> metrics_file \<Rightarrow> files" where
  "example_files b df m =
     \<lparr>baseline_file = b, latest_parquet = Some (Readable df), metrics_json = m,
      now = ''2025-10-07T09:00:00''\<rparr>"

section \<open>Facts about strings\<close>














lemma str_in_trans: "str_in a b \<Longrightarrow> str_in b s \<Longrightarrow> str_in a s"
  unfolding str_in_def by (rule sublist_order.order_trans)

lemma prefix_str_in: "startswith s p \<Longrightarrow> str_in p s"
  unfolding str_in_def startswith_def by (rule prefix_imp_sublist)

lemma suffix_str_in: "endswith s p \<Longrightarrow> str_in p s"
  unfolding str_in_def endswith_def by (rule suffix_imp_sublist)

lemma it_in_itspec: "str_in ''it'' ''itspec''"
  by (simp add: str_in_def sublist_code)

lemma spec_in_itspec: "str_in ''spec'' ''itspec''"
  by (simp add: str_in_def sublist_code)

lemma it_in_it_space: "str_in ''it'' ''it ''"
  by (simp add: str_in_def sublist_code)

lemma it_in_space_it_space: "str_in ''it'' '' it ''"
  by (simp add: str_in_def sublist_code)

lemma spec_in_specialist: "str_in ''spec'' ''specialist''"
  by (simp add: str_in_def sublist_code)

lemma has_it_str_in:
  "str_in ''it '' s \<or> startswith s ''it'' \<or> endswith s ''it'' \<or> str_in '' it '' s
   \<Longrightarrow> str_in ''it'' s"
  using str_in_trans [OF it_in_it_space] str_in_trans [OF it_in_space_it_space]
    prefix_str_in suffix_str_in
  by blast

section \<open>Properties of the classifier\<close>

text \<open>
  C8. The classifier returns false for the null title and for the empty string; it
  accepts "IT Specialist", "ITSPEC (NETWORK)" and "IT SPEC (SYSADMIN)"; it rejects
  "Information Technology Manager", "IT Program Manager" and "IT System Administrator".
\<close>

theorem classify_examples:
  "is_it_specialist None = False
   \<and> is_it_specialist (Some '''') = False
   \<and> is_it_specialist (Some ''IT Specialist'') = True
   \<and> is_it_specialist (Some ''ITSPEC (NETWORK)'') = True
   \<and> is_it_specialist (Some ''IT SPEC (SYSADMIN)'') = True
   \<and> is_it_specialist (Some ''Information Technology Manager'') = False
   \<and> is_it_specialist (Some ''IT Program Manager'') = False
   \<and> is_it_specialist (Some ''IT System Administrator'') = False"
  by code_simp




text \<open>
  C10. The classifier accepts a title exactly when the loose rule does: the title is a
  non-null, non-empty string whose lowercasing contains \<open>it\<close> and \<open>spec\<close>, or contains
  \<open>information technology\<close> and \<open>specialist\<close>. The \<open>itspec\<close> rule and the
  word-boundary branch accept nothing that the loose substring rule does not.
\<close>

theorem classify_is_loose_rule:
  "is_it_specialist title = loose_rule title"
proof (cases title)
  case None
  then show ?thesis by (simp add: is_it_specialist_def loose_rule_def)
next
  case (Some t)
  let ?l = "lower t"
  have a: "str_in ''itspec'' ?l \<Longrightarrow> str_in ''it'' ?l \<and> str_in ''spec'' ?l"
    using str_in_trans [OF it_in_itspec] str_in_trans [OF spec_in_itspec] by blast
  have b: "str_in ''specialist'' ?l \<Longrightarrow> str_in ''spec'' ?l"
    using str_in_trans [OF spec_in_specialist] by blast
  have c: "str_in ''it '' ?l \<or> startswith ?l ''it'' \<or> endswith ?l ''it''
           \<or> str_in '' it '' ?l \<Longrightarrow> str_in ''it'' ?l"
    by (rule has_it_str_in)
  show ?thesis
    using a b c Some by (auto simp add: is_it_specialist_def loose_rule_def Let_def)
qed

section \<open>Facts about the verifier\<close>

lemma max_of_bound:
  "list_all (\<lambda>d. zone_aware d = k) (m # ds)
   \<Longrightarrow> \<exists>r. max_of m ds = Some r \<and> r \<in> set (m # ds) \<and> (\<forall>d\<in>set (m # ds). instant d \<le> instant r)"
proof (induction ds arbitrary: m)
  case Nil
  then show ?case by simp
next
  case (Cons d ds)
  let ?m = "if instant m < instant d then d else m"
  have "list_all (\<lambda>d. zone_aware d = k) (?m # ds)"
    using Cons.prems by simp
  from Cons.IH [OF this] obtain r where r: "max_of ?m ds = Some r" "r \<in> set (?m # ds)"
    "\<forall>x\<in>set (?m # ds). instant x \<le> instant r"
    by blast
  have "max_of m (d # ds) = Some r"
    using Cons.prems r(1) by (simp add: ts_less_def)
  moreover have "r \<in> set (m # d # ds)"
    using r(2) by (auto split: if_splits)
  moreover have "\<forall>x\<in>set (m # d # ds). instant x \<le> instant r"
    using r(3) by (auto split: if_splits)
  ultimately show ?case by blast
qed

lemma max_of_uniform:
  assumes "list_all (\<lambda>d. zone_aware d = k) (m # ds)"
  shows "max_of m ds = latest_of k (m # ds)"
proof -
  from max_of_bound [OF assms] obtain r where r: "max_of m ds = Some r" "r \<in> set (m # ds)"
    "\<forall>d\<in>set (m # ds). instant d \<le> instant r"
    by blast
  have "Max (instant ` set (m # ds)) = instant r"
    using r(2,3) by (intro Max_eqI) auto
  moreover have "zone_aware r = k"
    using assms r(2) by (auto simp add: list_all_iff)
  ultimately have "r = Timestamp k (Max (instant ` set (m # ds)))"
    by (cases r) simp
  then show ?thesis
    using r(1) by (simp add: latest_of_def)
qed

lemma latest_of_append:
  assumes "acc \<noteq> []" and "ds \<noteq> []"
  shows "latest_of k (acc @ ds)
         = Some (Timestamp k (max (Max (instant ` set acc)) (Max (instant ` set ds))))"
proof -
  have "Max (instant ` set acc \<union> instant ` set ds)
        = max (Max (instant ` set acc)) (Max (instant ` set ds))"
    using assms by (intro Max_Un) auto
  then show ?thesis
    using assms by (simp add: latest_of_def image_Un)
qed

lemma max_step_latest:
  assumes "ds = (if col \<in> set cols
                 then dropna (to_datetime_coerce L (map (\<lambda>r. r col) rows)) else [])"
    and "list_all (\<lambda>d. zone_aware d = k) (acc @ ds)"
  shows "max_step L cols rows (latest_of k acc) col = Some (latest_of k (acc @ ds))"
proof (cases ds)
  case Nil
  then show ?thesis
    using assms(1) by (auto simp add: max_step_def split: if_splits)
next
  case (Cons d ds')
  then have col: "col \<in> set cols"
    and dates: "dropna (to_datetime_coerce L (map (\<lambda>r. r col) rows)) = d # ds'"
    using assms(1) by (auto split: if_splits)
  have "list_all (\<lambda>d. zone_aware d = k) (d # ds')"
    using assms(2) Cons by simp
  then have m: "max_of d ds' = latest_of k ds"
    using max_of_uniform Cons by simp
  show ?thesis
  proof (cases acc)
    case Nil
    then show ?thesis
      using col dates m Cons by (simp add: max_step_def latest_of_def)
  next
    case (Cons a acc')
    then have ne: "acc \<noteq> []" "ds \<noteq> []"
      using \<open>ds = d # ds'\<close> by auto
    let ?A = "Max (instant ` set acc)"
    let ?B = "Max (instant ` set ds)"
    have cur: "latest_of k acc = Some (Timestamp k ?A)"
      using ne by (simp add: latest_of_def)
    have colmax: "max_of d ds' = Some (Timestamp k ?B)"
      using m ne by (simp add: latest_of_def)
    have "max_step L cols rows (Some (Timestamp k ?A)) col
          = Some (Some (Timestamp k (max ?A ?B)))"
      using col dates colmax by (simp add: max_step_def ts_less_def max_def)
    then show ?thesis
      using latest_of_append [OF ne, of k] cur by simp
  qed
qed

lemma max_it_date_latest:
  assumes "list_all (\<lambda>d. zone_aware d = k) (it_dates L df)"
  shows "max_it_date L df = Some (latest_of k (it_dates L df))"
proof -
  let ?cols = "df_columns df"
  let ?rows = "it_jobs df"
  let ?ds = "\<lambda>col. if col \<in> set ?cols
                   then dropna (to_datetime_coerce L (map (\<lambda>r. r col) ?rows)) else []"
  have D: "it_dates L df = ?ds PositionStartDate @ ?ds PublicationStartDate"
    by (simp add: it_dates_def date_cols_def)
  have u1: "list_all (\<lambda>d. zone_aware d = k) ([] @ ?ds PositionStartDate)"
    using assms unfolding D by simp
  have s1: "max_step L ?cols ?rows None PositionStartDate
            = Some (latest_of k (?ds PositionStartDate))"
    using max_step_latest [OF refl u1] by (simp add: latest_of_def)
  have u2: "list_all (\<lambda>d. zone_aware d = k) (?ds PositionStartDate @ ?ds PublicationStartDate)"
    using assms unfolding D by simp
  have s2: "max_step L ?cols ?rows (latest_of k (?ds PositionStartDate)) PublicationStartDate
            = Some (latest_of k (?ds PositionStartDate @ ?ds PublicationStartDate))"
    by (rule max_step_latest [OF refl u2])
  show ?thesis
    unfolding D by (simp add: max_it_date_def date_cols_def s1 s2)
qed

lemma filter_map_pos:
  "0 < length (filter (\<lambda>b. b) (map P ds)) \<longleftrightarrow> (\<exists>d\<in>set ds. P d)"
  by (auto simp add: filter_empty_conv)

lemma october_step_stamp:
  assumes "ds = (if col \<in> set (df_columns df)
                 then dropna (to_datetime_coerce L (column df col)) else [])"
  shows "october_step L df (Stamp c) acc col =
           (if list_all (\<lambda>d. zone_aware d = zone_aware c) ds
            then Some (fst acc + length (filter (\<lambda>b. b) (map (\<lambda>d. instant d < instant c) ds)),
                       snd acc + length ds)
            else None)"
  using assms by (auto simp add: october_step_def Let_def)

lemma october_loop_stamp:
  "october_loop L df (Stamp c) (0, 0) date_cols =
     (if list_all (\<lambda>d. zone_aware d = zone_aware c) (all_dates L df)
      then Some (length (filter (\<lambda>b. b) (map (\<lambda>d. instant d < instant c) (all_dates L df))),
                 length (all_dates L df))
      else None)"
proof -
  let ?ds = "\<lambda>col. if col \<in> set (df_columns df)
                   then dropna (to_datetime_coerce L (column df col)) else []"
  have D: "all_dates L df = ?ds PositionStartDate @ ?ds PublicationStartDate"
    by (simp add: all_dates_def date_cols_def)
  show ?thesis
    unfolding D
    by (simp add: date_cols_def october_step_stamp [OF refl])
qed

lemma run_files_failed:
  "\<not> list_all returns (reports (run_tests L s))
   \<Longrightarrow> files_after (run_tests L s) = left_by_no_job_loss L s"
  by (auto simp add: run_tests_def reports_def files_after_def left_by_no_job_loss_def Let_def
      split: sum.splits prod.splits if_splits)

lemma no_job_loss_keeps:
  "baseline_file s = Stored (Dict b) \<Longrightarrow> data_filter b = Some current_filter
   \<Longrightarrow> left_by_no_job_loss L s = s"
  by (auto simp add: left_by_no_job_loss_def test_no_job_loss_def load_baseline_def
      empty_dict_def Let_def split: option.splits parquet.splits sum.splits)

text \<open>
  A baseline without the key \<open>data_filter\<close>, as \<^verbatim>\<open>create_initial_baseline\<close> writes it,
  is taken for a filter change by the no-job-loss check and written anew.
\<close>

lemma no_job_loss_resets:
  "baseline_file s = Stored (Dict b) \<Longrightarrow> data_filter b = None \<Longrightarrow> latest_parquet s = Some latest_file
   \<Longrightarrow> test_no_job_loss L s = Inr (WARN, create_initial_baseline L latest_file s)"
  by (simp add: test_no_job_loss_def load_baseline_def Let_def current_filter_def)

lemma create_not_corrupt:
  "baseline_file s \<noteq> Corrupt \<Longrightarrow> baseline_file (create_initial_baseline L f s) \<noteq> Corrupt"
  by (auto simp add: create_initial_baseline_def Let_def split: parquet.splits option.splits)

lemma no_job_loss_not_corrupt:
  "test_no_job_loss L s = Inr (r2, s2) \<Longrightarrow> baseline_file s2 \<noteq> Corrupt"
  by (auto simp add: test_no_job_loss_def load_baseline_def Let_def create_not_corrupt
      split: baseline_state.splits option.splits parquet.splits if_splits stored.splits)

lemma date_progression_no_raise:
  "baseline_file s \<noteq> Corrupt \<Longrightarrow> \<exists>r. test_date_progression L s = Inr r"
  by (cases "baseline_file s") (simp_all add: test_date_progression_def load_baseline_def)

lemma no_job_loss_no_raise:
  "baseline_file s \<noteq> Corrupt \<Longrightarrow> baseline_file s \<noteq> Stored (Not_dict True)
   \<Longrightarrow> \<exists>r2 s2. test_no_job_loss L s = Inr (r2, s2)"
  by (auto simp add: test_no_job_loss_def load_baseline_def Let_def
      split: baseline_state.splits option.splits parquet.splits stored.splits)

text \<open>
  When the baseline file is absent, an object or a false value, no check raises: the run
  reports the five checks and returns 0 exactly when they all return true.
\<close>

lemma run_completes:
  assumes "baseline_file s \<noteq> Corrupt" and "baseline_file s \<noteq> Stored (Not_dict True)"
  shows "length (reports (run_tests L s)) = 5
       \<and> fst (run_tests L s) = Inr (if list_all returns (reports (run_tests L s)) then 0 else 1)"
proof -
  from no_job_loss_no_raise [OF assms] obtain r2 s2 where a: "test_no_job_loss L s = Inr (r2, s2)"
    by blast
  from date_progression_no_raise [OF no_job_loss_not_corrupt [OF a]]
  obtain r3 where b: "test_date_progression L s2 = Inr r3"
    by blast
  show ?thesis
    using a b by (simp add: run_tests_def reports_def Let_def)
qed

section \<open>Properties of the verifier\<close>

text \<open>
  C1, as amended. In a run in which at least one of the five checks fails, the end-of-run
  baseline update is not performed: the run leaves the files as the no-job-loss check
  left them. When such a run starts with a baseline that stores the active filter
  description, the baseline file is left unchanged.
\<close>

theorem baseline_kept_on_failure:
  assumes "\<not> list_all returns (reports (run_tests L s))"
  shows "files_after (run_tests L s) = left_by_no_job_loss L s
       \<and> ((\<exists>b. baseline_file s = Stored (Dict b) \<and> data_filter b = Some current_filter)
            \<longrightarrow> baseline_file (files_after (run_tests L s)) = baseline_file s)"
  using assms by (auto simp add: run_files_failed no_job_loss_keeps)

theorem baseline_kept_on_failure_witness:
  "\<not> list_all returns
        (reports (run_tests example_library
           (example_files (Stored (Dict (example_baseline [''1001''] None))) example_frame
              Missing)))
   \<and> data_filter (example_baseline [''1001''] None) = Some current_filter
   \<and> baseline_file (files_after (run_tests example_library
        (example_files (Stored (Dict (example_baseline [''1001''] None))) example_frame
           Missing)))
      = Stored (Dict (example_baseline [''1001''] None))"
proof -
  let ?s = "example_files (Stored (Dict (example_baseline [''1001''] None))) example_frame
              Missing"
  have h: "\<not> list_all returns (reports (run_tests example_library ?s))"
    by code_simp
  have f: "data_filter (example_baseline [''1001''] None) = Some current_filter"
    by (simp add: example_baseline_def)
  have b: "baseline_file ?s = Stored (Dict (example_baseline [''1001''] None))"
    by (simp add: example_files_def)
  show ?thesis
    using baseline_kept_on_failure [OF h] h f b by auto
qed

text \<open>
  C1 as stated fails: on a first run (no baseline file) the no-job-loss check creates the
  baseline, and the run then fails on the missing metrics artifact; the baseline file has
  been written although a check failed.
\<close>

theorem baseline_written_in_failing_run:
  "exit_status (run_tests example_library (example_files Absent example_frame Missing)) = 1
   \<and> \<not> returns (test_metrics_json (example_files Absent example_frame Missing))
   \<and> baseline_file (example_files Absent example_frame Missing) = Absent
   \<and> baseline_file (files_after (run_tests example_library
        (example_files Absent example_frame Missing))) \<noteq> Absent"
  by code_simp

text \<open>
  C2. The snapshot that \<^verbatim>\<open>create_initial_baseline\<close> writes has the keys \<open>created_at\<close>,
  \<open>job_ids\<close>, \<open>total_jobs\<close> and \<open>most_recent_it_specialist_date\<close> and no other; it has
  no key \<open>data_filter\<close>. This holds on the example frame, and on every readable data
  file for which the call writes at all.
\<close>

theorem baseline_written_without_data_filter:
  "baseline_file (create_initial_baseline example_library (Readable example_frame)
       (example_files Absent example_frame Missing))
     = Stored (Dict
         \<lparr>created_at = Some ''2025-10-07T09:00:00'',
          job_ids = Some [''1001'', ''1002''],
          total_jobs = Some 2,
          most_recent_it_specialist_date = Some (Some ''2025-10-01T00:00:00''),
          data_filter = None,
          other_keys = []\<rparr>)
   \<and> (create_initial_baseline L (Readable df) s = s
       \<or> (\<exists>b. baseline_file (create_initial_baseline L (Readable df) s) = Stored (Dict b)
            \<and> created_at b \<noteq> None \<and> job_ids b \<noteq> None \<and> total_jobs b \<noteq> None
            \<and> most_recent_it_specialist_date b \<noteq> None \<and> data_filter b = None
            \<and> other_keys b = []))"
proof
  show "baseline_file (create_initial_baseline example_library (Readable example_frame)
       (example_files Absent example_frame Missing))
     = Stored (Dict
         \<lparr>created_at = Some ''2025-10-07T09:00:00'',
          job_ids = Some [''1001'', ''1002''],
          total_jobs = Some 2,
          most_recent_it_specialist_date = Some (Some ''2025-10-01T00:00:00''),
          data_filter = None,
          other_keys = []\<rparr>)"
    by code_simp
  show "create_initial_baseline L (Readable df) s = s
       \<or> (\<exists>b. baseline_file (create_initial_baseline L (Readable df) s) = Stored (Dict b)
            \<and> created_at b \<noteq> None \<and> job_ids b \<noteq> None \<and> total_jobs b \<noteq> None
            \<and> most_recent_it_specialist_date b \<noteq> None \<and> data_filter b = None
            \<and> other_keys b = [])"
    by (simp add: create_initial_baseline_def Let_def split: option.splits)
qed

text \<open>
  C3. With a baseline that stores the active filter description and a current data frame
  whose identifier set \<open>C\<close> is not empty: when some identifier of the baseline's set \<open>B\<close>
  is missing from \<open>C\<close>, the no-job-loss check fails, reporting the number of lost
  identifiers and the first ten of them; when \<open>B\<close> is a subset of \<open>C\<close>, it passes.
\<close>

theorem no_job_loss_verdict:
  assumes "latest_parquet s = Some (Readable df)"
    and "baseline_file s = Stored (Dict b)"
    and "data_filter b = Some current_filter"
    and "C = set (extract_job_ids df)"
    and "C \<noteq> {}"
    and "B = set (case job_ids b of None \<Rightarrow> [] | Some ids \<Rightarrow> ids)"
  shows "(\<not> B \<subseteq> C \<longrightarrow>
            \<not> returns (JOBS_LOST (card (B - C)) (take 10 (set_to_list L (B - C))))
            \<and> test_no_job_loss L s
                = Inr (JOBS_LOST (card (B - C)) (take 10 (set_to_list L (B - C))), s))
       \<and> (B \<subseteq> C \<longrightarrow> test_no_job_loss L s = Inr (PASS, s))"
  using assms
  by (auto simp add: test_no_job_loss_def load_baseline_def empty_dict_def Let_def)

theorem no_job_loss_verdict_witness:
  "\<not> {''1001'', ''1003''} \<subseteq> {''1001'', ''1002''}
   \<and> test_no_job_loss example_library
        (example_files (Stored (Dict (example_baseline [''1001'', ''1003''] None)))
           example_frame Missing)
      = Inr (JOBS_LOST 1 [''1003''],
             example_files (Stored (Dict (example_baseline [''1001'', ''1003''] None)))
               example_frame Missing)
   \<and> {''1001''} \<subseteq> {''1001'', ''1002''}
   \<and> test_no_job_loss example_library
        (example_files (Stored (Dict (example_baseline [''1001''] None))) example_frame
           Missing)
      = Inr (PASS,
             example_files (Stored (Dict (example_baseline [''1001''] None))) example_frame
               Missing)"
proof -
  let ?C = "{''1001'', ''1002''} :: string set"
  let ?b1 = "example_baseline [''1001'', ''1003''] None"
  let ?b2 = "example_baseline [''1001''] None"
  let ?s1 = "example_files (Stored (Dict ?b1)) example_frame Missing"
  let ?s2 = "example_files (Stored (Dict ?b2)) example_frame Missing"
  have ids: "?C = set (extract_job_ids example_frame)"
    by code_simp
  have ne: "?C \<noteq> {}" by simp
  have lost: "\<not> {''1001'', ''1003''} \<subseteq> ?C" by simp
  have kept: "{''1001''} \<subseteq> ?C" by simp
  have diff: "{''1001'', ''1003''} - ?C = {''1003''}" by auto
  have order: "take 10 (set_to_list example_library {''1003''}) = [''1003'']"
    by (simp add: example_library_def)
  have v1: "test_no_job_loss example_library ?s1
              = Inr (JOBS_LOST (card ({''1001'', ''1003''} - ?C))
                   (take 10 (set_to_list example_library ({''1001'', ''1003''} - ?C))), ?s1)"
    using no_job_loss_verdict [of ?s1 example_frame ?b1 ?C "{''1001'', ''1003''}" example_library]
      ids ne lost
    by (simp add: example_files_def example_baseline_def)
  have v2: "test_no_job_loss example_library ?s2 = Inr (PASS, ?s2)"
    using no_job_loss_verdict [of ?s2 example_frame ?b2 ?C "{''1001''}" example_library]
      ids ne kept
    by (simp add: example_files_def example_baseline_def)
  show ?thesis
    using v1 v2 lost kept by (simp add: diff order)
qed

text \<open>
  C4, as amended. With a baseline and a current data frame whose IT-specialist rows have
  dates that parse, all zone-aware or all zone-naive, the current maximum is the latest
  of these dates over both date columns. When the baseline stores a date of the same
  kind, the date-progression check fails if the current maximum is strictly earlier than
  the stored date and passes if it is equal or later; when the stored date is of the
  other kind, the comparison raises and the check fails; when the baseline stores no
  date, the check passes. In a run the check reads the baseline as the no-job-loss check
  left it.
\<close>

theorem date_progression_verdict:
  assumes "baseline_file s = Stored (Dict b)"
    and "latest_parquet s = Some (Readable df)"
    and "PositionTitle \<in> set (df_columns df)"
    and "it_jobs df \<noteq> []"
    and "it_dates L df \<noteq> []"
    and "list_all (\<lambda>d. zone_aware d = k) (it_dates L df)"
    and "cur = Timestamp k (Max (instant ` set (it_dates L df)))"
  shows "(most_recent_it_specialist_date b = Some (Some str) \<and> str \<noteq> []
            \<and> to_datetime L str = Stamp d \<and> zone_aware d = k
          \<longrightarrow> test_date_progression L s
                = Inr (if instant cur < instant d then DATE_BACKWARDS str cur else PASS))
       \<and> (most_recent_it_specialist_date b = Some (Some str) \<and> str \<noteq> []
            \<and> to_datetime L str = Stamp d \<and> zone_aware d \<noteq> k
          \<longrightarrow> test_date_progression L s = Inr FAIL)
       \<and> (most_recent_it_specialist_date b = None \<or> most_recent_it_specialist_date b = Some None
          \<longrightarrow> (\<exists>r. test_date_progression L s = Inr r \<and> returns r))"
proof -
  have m: "max_it_date L df = Some (Some cur)"
    using max_it_date_latest [OF assms(6)] assms(5,7) by (simp add: latest_of_def)
  show ?thesis
    using assms(1-4) m assms(7)
    by (auto simp add: test_date_progression_def load_baseline_def empty_dict_def ts_less_def
        split: option.splits)
qed

theorem date_progression_verdict_witness:
  "it_dates example_library example_wide_frame
     = [Timestamp False 20251001, Timestamp False 20250930, Timestamp False 20250930,
        Timestamp False 20251005]
   \<and> test_date_progression example_library
        (example_files (Stored (Dict (example_baseline [''1001''] (Some ''2025-10-08''))))
           example_wide_frame Missing)
      = Inr (DATE_BACKWARDS ''2025-10-08'' (Timestamp False 20251005))
   \<and> test_date_progression example_library
        (example_files (Stored (Dict (example_baseline [''1001''] (Some ''2025-10-05''))))
           example_wide_frame Missing)
      = Inr PASS
   \<and> test_date_progression example_library
        (example_files (Stored (Dict (example_baseline [''1001''] (Some ''2025-10-01''))))
           example_wide_frame Missing)
      = Inr PASS
   \<and> test_date_progression example_library
        (example_files
           (Stored (Dict (example_baseline [''1001''] (Some ''2025-10-08T00:00:00+00:00''))))
           example_wide_frame Missing)
      = Inr FAIL
   \<and> (\<exists>r. test_date_progression example_library
              (example_files (Stored (Dict (example_baseline [''1001''] None)))
                 example_wide_frame Missing) = Inr r
          \<and> returns r)"
proof -
  let ?b = "\<lambda>date. example_baseline [''1001''] date"
  let ?s = "\<lambda>date. example_files (Stored (Dict (?b date))) example_wide_frame Missing"
  let ?cur = "Timestamp False 20251005"
  have title: "PositionTitle \<in> set (df_columns example_wide_frame)"
    by (simp add: example_wide_frame_def)
  have rows: "it_jobs example_wide_frame \<noteq> []"
    by code_simp
  have dates: "it_dates example_library example_wide_frame
     = [Timestamp False 20251001, Timestamp False 20250930, Timestamp False 20250930,
        Timestamp False 20251005]"
    by code_simp
  have some: "it_dates example_library example_wide_frame \<noteq> []"
    by (simp add: dates)
  have naive: "list_all (\<lambda>d. zone_aware d = False) (it_dates example_library example_wide_frame)"
    by (simp add: dates)
  have cur: "?cur = Timestamp False (Max (instant ` set (it_dates example_library
                example_wide_frame)))"
    by (simp add: dates)
  have d8: "to_datetime example_library ''2025-10-08'' = Stamp (Timestamp False 20251008)"
    by code_simp
  have d5: "to_datetime example_library ''2025-10-05'' = Stamp (Timestamp False 20251005)"
    by code_simp
  have d1: "to_datetime example_library ''2025-10-01'' = Stamp (Timestamp False 20251001)"
    by code_simp
  have a8: "to_datetime example_library ''2025-10-08T00:00:00+00:00''
              = Stamp (Timestamp True 20251008)"
    by code_simp
  have stored_file: "\<And>date. baseline_file (?s date) = Stored (Dict (?b date))"
    and frame: "\<And>date. latest_parquet (?s date) = Some (Readable example_wide_frame)"
    by (simp_all add: example_files_def)
  have stored: "\<And>date. most_recent_it_specialist_date (?b date) = Some date"
    by (simp add: example_baseline_def)
  note verdict = date_progression_verdict [OF stored_file frame title rows some naive cur]
  have backwards: "test_date_progression example_library (?s (Some ''2025-10-08''))
                     = Inr (DATE_BACKWARDS ''2025-10-08'' ?cur)"
    using verdict [of "Some ''2025-10-08''" "''2025-10-08''" "Timestamp False 20251008"]
      d8 stored
    by simp
  have same: "test_date_progression example_library (?s (Some ''2025-10-05'')) = Inr PASS"
    using verdict [of "Some ''2025-10-05''" "''2025-10-05''" "Timestamp False 20251005"]
      d5 stored
    by simp
  have later: "test_date_progression example_library (?s (Some ''2025-10-01'')) = Inr PASS"
    using verdict [of "Some ''2025-10-01''" "''2025-10-01''" "Timestamp False 20251001"]
      d1 stored
    by simp
  have other: "test_date_progression example_library (?s (Some ''2025-10-08T00:00:00+00:00''))
                 = Inr FAIL"
    using verdict [of "Some ''2025-10-08T00:00:00+00:00''" "''2025-10-08T00:00:00+00:00''"
        "Timestamp True 20251008"] a8 stored
    by simp
  have nodate: "\<exists>r. test_date_progression example_library (?s None) = Inr r \<and> returns r"
    using verdict [of None] stored
    by simp
  show ?thesis
    using dates backwards same later other nodate by simp
qed

text \<open>
  C4 as stated fails: the baseline stores the zone-naive date 2025-10-01, the current
  maximum is the zone-aware date 2025-10-05, which is later, and the check fails, because
  the comparison of the two raises.
\<close>

theorem date_progression_fails_on_later_aware_date:
  "it_dates example_library example_aware_frame = [Timestamp True 20251005]
   \<and> to_datetime example_library ''2025-10-01'' = Stamp (Timestamp False 20251001)
   \<and> test_date_progression example_library
        (example_files (Stored (Dict (example_baseline [''1001''] (Some ''2025-10-01''))))
           example_aware_frame Missing)
      = Inr FAIL"
  by code_simp

text \<open>
  C5, as amended. On a readable data frame, with the cutoff 2025-10-01, the
  cutoff-compliance check passes exactly when every date that parses in the columns
  \<open>PositionStartDate\<close> and \<open>PublicationStartDate\<close> is of the cutoff's kind (zone-naive,
  for a zone-naive cutoff) and at or after the cutoff. It fails when some date is
  strictly earlier than the cutoff, and it fails when some date is of the other kind,
  since the comparison then raises.
\<close>

theorem october_filter_verdict:
  assumes "latest_parquet s = Some (Readable df)"
    and "to_datetime L ''2025-10-01'' = Stamp cutoff"
  shows "returns (test_october_filter L s)
         \<longleftrightarrow> (\<forall>d\<in>set (all_dates L df).
                zone_aware d = zone_aware cutoff \<and> instant cutoff \<le> instant d)"
  using assms
  by (auto simp add: test_october_filter_def october_loop_stamp filter_map_pos list_all_iff
      filter_empty_conv not_less)



theorem october_filter_verdict_witness:
  "to_datetime example_library ''2025-10-01'' = Stamp (Timestamp False 20251001)
   \<and> all_dates example_library example_stale_frame = [Timestamp False 20250930]
   \<and> \<not> returns (test_october_filter example_library
          (example_files Absent example_stale_frame Missing))
   \<and> all_dates example_library example_frame
       = [Timestamp False 20251001, Timestamp False 20251005]
   \<and> returns (test_october_filter example_library
        (example_files Absent example_frame Missing))"
proof -
  let ?stale = "example_files Absent example_stale_frame Missing"
  let ?fresh = "example_files Absent example_frame Missing"
  have cutoff: "to_datetime example_library ''2025-10-01'' = Stamp (Timestamp False 20251001)"
    by code_simp
  have d1: "all_dates example_library example_stale_frame = [Timestamp False 20250930]"
    by code_simp
  have d2: "all_dates example_library example_frame
              = [Timestamp False 20251001, Timestamp False 20251005]"
    by code_simp
  have f1: "latest_parquet ?stale = Some (Readable example_stale_frame)"
    and f2: "latest_parquet ?fresh = Some (Readable example_frame)"
    by (simp_all add: example_files_def)
  have v1: "\<not> returns (test_october_filter example_library ?stale)"
    using october_filter_verdict [OF f1 cutoff] by (simp add: d1)
  have v2: "returns (test_october_filter example_library ?fresh)"
    using october_filter_verdict [OF f2 cutoff] by (simp add: d2)
  show ?thesis
    using cutoff d1 d2 v1 v2 by simp
qed

text \<open>
  C5 as stated fails: the only date of the frame is the zone-aware date 2025-10-05, which
  is after the cutoff, and the check fails, because the comparison with the zone-naive
  cutoff raises.
\<close>

theorem october_filter_fails_on_later_aware_date:
  "to_datetime example_library ''2025-10-01'' = Stamp (Timestamp False 20251001)
   \<and> all_dates example_library example_aware_frame = [Timestamp True 20251005]
   \<and> test_october_filter example_library (example_files Absent example_aware_frame Missing)
      = FAIL"
  by code_simp

lemma missing_filter:
  "filter (\<lambda>field. py_in field (JObj kvs) = Some False) fs = [f \<leftarrow> fs. f \<notin> fst ` set kvs]"
  by (induction fs) auto

text \<open>
  C6, as amended. For a metrics artifact that is a JSON object: when any of the four
  top-level fields is absent, the metrics check fails and names the absent top-level
  fields; when they are all present and the nested \<open>most_recent_it_specialist\<close> object
  lacks any of \<open>title\<close>, \<open>date_posted\<close>, \<open>link\<close>, the check fails with a message that
  names no field; when nothing is missing, it passes.
\<close>

theorem metrics_verdict:
  assumes "metrics_json s = Parsed (JObj kvs)"
  shows "(\<not> set required_fields \<subseteq> fst ` set kvs \<longrightarrow>
            test_metrics_json s = MISSING_FIELDS [f \<leftarrow> required_fields. f \<notin> fst ` set kvs])
       \<and> (set required_fields \<subseteq> fst ` set kvs
            \<and> map_of kvs ''most_recent_it_specialist'' = Some (JObj sub) \<longrightarrow>
            test_metrics_json s =
              (if set required_subfields \<subseteq> fst ` set sub then PASS else MISSING_SUBFIELDS))"
proof -
  let ?missing = "[f \<leftarrow> required_fields. f \<notin> fst ` set kvs]"
  have m: "?missing = [] \<longleftrightarrow> set required_fields \<subseteq> fst ` set kvs"
    by (auto simp add: filter_empty_conv)
  have sub: "list_all (\<lambda>key. py_in key (JObj sub) = Some True) required_subfields
             \<longleftrightarrow> set required_subfields \<subseteq> fst ` set sub"
    by (auto simp add: list_all_iff)
  show ?thesis
    using assms m sub
    by (auto simp add: test_metrics_json_def Let_def missing_filter simp del: py_in.simps(1)
        split: option.splits) (simp_all add: sub)
qed

theorem metrics_verdict_witness:
  "test_metrics_json (example_files Absent example_frame (Parsed (JObj
        [(''total_2210_jobs'', JNum 2), (''it_specialist_jobs'', JNum 1),
         (''most_recent_it_specialist'', JObj [])])))
      = MISSING_FIELDS [''it_specialist_percentage'']
   \<and> test_metrics_json (example_files Absent example_frame (Parsed (example_metrics
        [(''title'', JNull), (''date_posted'', JNull)])))
      = MISSING_SUBFIELDS
   \<and> test_metrics_json (example_files Absent example_frame (Parsed (example_metrics
        [(''title'', JNull), (''date_posted'', JNull), (''link'', JNull)])))
      = PASS"
proof -
  let ?short = "[(''total_2210_jobs'', JNum 2), (''it_specialist_jobs'', JNum 1),
                 (''most_recent_it_specialist'', JObj [])]"
  let ?two = "[(''title'', JNull), (''date_posted'', JNull)]"
  let ?three = "[(''title'', JNull), (''date_posted'', JNull), (''link'', JNull)]"
  let ?top = "\<lambda>recent. [(''generated_at'', JStr ''2025-10-06T08:00:00''),
                 (''total_2210_jobs'', JNum 2), (''it_specialist_jobs'', JNum 1),
                 (''it_specialist_percentage'', JNum 50),
                 (''most_recent_it_specialist'', JObj recent)]"
  have a: "test_metrics_json (example_files Absent example_frame (Parsed (JObj ?short)))
             = MISSING_FIELDS [''it_specialist_percentage'']"
    using metrics_verdict [of "example_files Absent example_frame (Parsed (JObj ?short))" ?short]
    by (simp add: example_files_def required_fields_def)
  have b: "test_metrics_json (example_files Absent example_frame (Parsed (example_metrics ?two)))
             = MISSING_SUBFIELDS"
    using metrics_verdict [of "example_files Absent example_frame (Parsed (example_metrics ?two))"
        "?top ?two" ?two]
    by (simp add: example_files_def example_metrics_def required_fields_def
        required_subfields_def)
  have c: "test_metrics_json (example_files Absent example_frame (Parsed (example_metrics ?three)))
             = PASS"
    using metrics_verdict [of "example_files Absent example_frame (Parsed (example_metrics ?three))"
        "?top ?three" ?three]
    by (simp add: example_files_def example_metrics_def required_fields_def
        required_subfields_def)
  show ?thesis
    using a b c by simp
qed

text \<open>
  C6 as stated fails: with the four top-level fields present and a nested object that
  lacks \<open>link\<close>, the check fails, and its message names no field.
\<close>

theorem metrics_missing_link_not_named:
  "py_in ''link'' (JObj [(''title'', JNull), (''date_posted'', JNull)]) = Some False
   \<and> \<not> returns (test_metrics_json (example_files Absent example_frame (Parsed (example_metrics
        [(''title'', JNull), (''date_posted'', JNull)]))))
   \<and> named_fields (test_metrics_json (example_files Absent example_frame (Parsed (example_metrics
        [(''title'', JNull), (''date_posted'', JNull)])))) = []"
  by code_simp

text \<open>
  C7. When the baseline file cannot be loaded as an object, the run does not execute all
  five checks: with text that is not JSON, \<^verbatim>\<open>json.load\<close> raises in the no-job-loss
  check, and with a true value that is not an object, \<^verbatim>\<open>baseline.get\<close> does; the
  exception leaves \<^verbatim>\<open>run_tests\<close> after the first report, and the process ends with
  status 1. With no baseline file, the same data and metrics give five reports.
\<close>

theorem run_aborts_on_unloadable_baseline:
  "fst (run_tests example_library
          (example_files Corrupt example_frame (Parsed (example_metrics
             [(''title'', JNull), (''date_posted'', JNull), (''link'', JNull)]))))
     = Inl JSONDecodeError
   \<and> reports (run_tests example_library
          (example_files Corrupt example_frame (Parsed (example_metrics
             [(''title'', JNull), (''date_posted'', JNull), (''link'', JNull)]))))
     = [PASS]
   \<and> exit_status (run_tests example_library
          (example_files Corrupt example_frame (Parsed (example_metrics
             [(''title'', JNull), (''date_posted'', JNull), (''link'', JNull)])))) = 1
   \<and> fst (run_tests example_library
          (example_files (Stored (Not_dict True)) example_frame (Parsed (example_metrics
             [(''title'', JNull), (''date_posted'', JNull), (''link'', JNull)]))))
     = Inl AttributeError
   \<and> reports (run_tests example_library
          (example_files (Stored (Not_dict True)) example_frame (Parsed (example_metrics
             [(''title'', JNull), (''date_posted'', JNull), (''link'', JNull)]))))
     = [PASS]
   \<and> reports (run_tests example_library
          (example_files Absent example_frame (Parsed (example_metrics
             [(''title'', JNull), (''date_posted'', JNull), (''link'', JNull)]))))
     = [PASS, WARN, PASS, PASS, PASS]"
  by code_simp

end
